theory Spec2Isabelle
  imports Complex_Main "HOL-Library.Word"
begin

section \<open>JavaScript values\<close>

text \<open>
  A JavaScript string is a sequence of UTF-16 code units: \<open>text.length\<close> is the number of
  code units and \<open>text.substr(0, n)\<close> keeps the first \<open>n\<close> code units. A character outside
  the Basic Multilingual Plane (most weather emoji) is a surrogate pair, two code units.
\<close>

type_synonym jsstring = "16 word list"

definition ascii :: "string \<Rightarrow> jsstring" where
  "ascii s = map of_char s"

text \<open>
  The number of code points of a string: a high surrogate followed by a low surrogate is one
  code point, every other code unit is one code point of its own.
\<close>

definition isHigh :: "16 word \<Rightarrow> bool" where
  "isHigh u = (0xD800 \<le> u \<and> u \<le> 0xDBFF)"

definition isLow :: "16 word \<Rightarrow> bool" where
  "isLow u = (0xDC00 \<le> u \<and> u \<le> 0xDFFF)"

fun codePoints :: "jsstring \<Rightarrow> jsstring list" where
  "codePoints [] = []"
| "codePoints [u] = [[u]]"
| "codePoints (u # v # us) =
     (if isHigh u \<and> isLow v then [u, v] # codePoints us else [u] # codePoints (v # us))"

text \<open>
  Numbers are IEEE doubles in the source. The model keeps the finite ones as the rationals
  they denote. \<open>Math.round\<close> returns the nearest integer, a tie going up
  (\<open>Math.round(2.5) = 3\<close>, \<open>Math.round(-2.5) = -2\<close>); for a result in \<open>[-0.5, 0)\<close>
  JavaScript gives \<open>-0\<close>, which prints as \<open>0\<close>.
\<close>

definition Math_round :: "rat \<Rightarrow> int" where
  "Math_round x = \<lfloor>x + 1 / 2\<rfloor>"

fun digits :: "nat \<Rightarrow> jsstring" where
  "digits n = (if n < 10 then [48 + of_nat n] else digits (n div 10) @ [48 + of_nat (n mod 10)])"

declare digits.simps [simp del]

definition intToString :: "int \<Rightarrow> jsstring" where
  "intToString i = (if i < 0 then 45 # digits (nat (- i)) else digits (nat i))"

text \<open>
  The values \<open>JSON.parse\<close> can return. An object is the list of its own properties, each
  key once.
\<close>

datatype json =
    JNull
  | JBool bool
  | JNum rat
  | JStr jsstring
  | JArr "json list"
  | JObj "(jsstring \<times> json) list"

text \<open>\<open>ToBoolean\<close>, as \<open>!v\<close>, \<open>v && \<dots>\<close> and \<open>if (v)\<close> apply it.\<close>

fun truthy :: "json \<Rightarrow> bool" where
  "truthy JNull = False"
| "truthy (JBool b) = b"
| "truthy (JNum x) = (x \<noteq> 0)"
| "truthy (JStr s) = (s \<noteq> [])"
| "truthy (JArr xs) = True"
| "truthy (JObj kvs) = True"

text \<open>A variable or a static field that may still be \<open>undefined\<close> is a \<open>json option\<close>.\<close>

definition truthy_opt :: "json option \<Rightarrow> bool" where
  "truthy_opt v = (case v of None \<Rightarrow> False | Some j \<Rightarrow> truthy j)"

text \<open>
  \<open>v.k\<close> for a value \<open>v\<close> that is neither \<open>null\<close> nor \<open>undefined\<close>, and for the keys the
  source reads (\<open>hours\<close>, \<open>minutes\<close>, \<open>location\<close>, \<open>point\<close>, \<open>name\<close>), none of which a
  prototype provides: an object gives its own property, anything else \<open>undefined\<close>.
\<close>

fun getProp :: "json \<Rightarrow> jsstring \<Rightarrow> json option" where
  "getProp (JObj kvs) k = map_of kvs k"
| "getProp _ k = None"

datatype error = TypeError string

section \<open>The host: everything the plugin calls but does not define\<close>

record Date =
  getHours :: nat
  getMinutes :: nat

record AccountData =
  userId :: jsstring

record Weather =
  time :: int
  temperature :: rat
  precipProbability :: rat
  icon :: jsstring

text \<open>
  The payload of the forecast provider. \<open>currently = None\<close> stands for a payload without
  \<open>currently\<close>, \<open>hourly_data = None\<close> for one without \<open>hourly\<close> or without \<open>hourly.data\<close>.
\<close>

record WeatherForcast =
  currently :: "Weather option"
  hourly_data :: "Weather list option"

text \<open>The options object \<open>getForecast\<close> hands to \<open>new Forecast\<close>.\<close>

record Forecast =
  service :: string
  key :: jsstring
  units :: string
  cache :: bool
  ttl_minutes :: nat
  ttl_seconds :: nat

text \<open>
  What the callback of \<open>forecast.get\<close> receives: an error object (truthy), or no error and
  the payload.
\<close>

datatype fetched = FetchError string | FetchOk WeatherForcast

text \<open>
  The environment store, \<open>JSON.parse\<close> (\<open>None\<close> when it throws), the provider's answer,
  the outcome of posting, the host's local time zone (\<open>new Date(ms)\<close>), double
  multiplication, and the two conversions to text the model does not spell out:
  \<open>Number::toString\<close> of a number that is not an integer below \<open>2^53\<close> in magnitude
  (such an integer prints as its decimal digits),
  \<open>ToString\<close> of a value that is neither a string, \<open>null\<close> nor \<open>undefined\<close>, and
  \<open>ToString\<close> of a member that an object literal inherits from \<open>Object.prototype\<close>.
\<close>

record host =
  getEnvData :: "jsstring \<Rightarrow> jsstring \<Rightarrow> jsstring option"
  JSON_parse :: "jsstring option \<Rightarrow> json option"
  forecast_get :: "Forecast \<Rightarrow> json option \<Rightarrow> fetched"
  postTweet :: "AccountData \<Rightarrow> jsstring \<Rightarrow> bool"
  new_Date :: "int \<Rightarrow> Date"
  Number_multiply :: "rat \<Rightarrow> rat \<Rightarrow> rat"
  Number_toString_other :: "rat \<Rightarrow> jsstring"
  ToString_other :: "json \<Rightarrow> jsstring"
  Inherited_toString :: "jsstring \<Rightarrow> jsstring"

definition Number_toString :: "host \<Rightarrow> rat \<Rightarrow> jsstring" where
  "Number_toString h x =
     (if of_int \<lfloor>x\<rfloor> = x \<and> \<bar>x\<bar> < 2 ^ 53 then intToString \<lfloor>x\<rfloor>
      else Number_toString_other h x)"

text \<open>\<open>`${v}`\<close> in a template literal.\<close>

definition ToString :: "host \<Rightarrow> json option \<Rightarrow> jsstring" where
  "ToString h v =
     (case v of
        None \<Rightarrow> ascii ''undefined''
      | Some JNull \<Rightarrow> ascii ''null''
      | Some (JStr s) \<Rightarrow> s
      | Some j \<Rightarrow> ToString_other h j)"

section \<open>The plugin's state and effects\<close>

datatype event =
    Log_t string
  | Log_w string
  | Log_e string
  | Forecast_get Forecast "json option"
  | PostTweet AccountData jsstring
  | Finish bool

text \<open>
  The two static fields of the class (\<open>None\<close>: still \<open>undefined\<close>, or \<open>null\<close> for the
  client), and the effects so far, oldest first.
\<close>

record static =
  scheduleList :: "json option"
  forecast :: "Forecast option"
  trace :: "event list"

record WeatherToday =
  accountData :: AccountData
  nowDate :: Date
  fullName :: jsstring

definition emit :: "event list \<Rightarrow> static \<Rightarrow> static" where
  "emit es st = st\<lparr>trace := trace st @ es\<rparr>"

definition WeatherTodayEnvKey_FullName :: jsstring where
  "WeatherTodayEnvKey_FullName = ascii ''PLUGINSBATCHWEATHERTODAY''"

definition WeatherTodayEnvKey_Schedules :: jsstring where
  "WeatherTodayEnvKey_Schedules = ascii ''SCHEDULES''"

definition WeatherTodayEnvKey_ForecastKey :: jsstring where
  "WeatherTodayEnvKey_ForecastKey = ascii ''FORECAST_KEY''"

section \<open>Loading the configuration\<close>

text \<open>
  \<open>getSchedules\<close>: \<open>result\<close> starts as the empty array; \<open>JSON.parse\<close> either replaces it
  by whatever value it parsed, or throws, and the handler logs a warning.
\<close>

definition getSchedules :: "host \<Rightarrow> AccountData \<Rightarrow> static \<Rightarrow> json \<times> static" where
  "getSchedules h a st =
     (let k = WeatherTodayEnvKey_Schedules @ ascii ''_'' @ userId a;
          raw = getEnvData h WeatherTodayEnvKey_FullName k
      in case JSON_parse h raw of
           Some v \<Rightarrow> (v, st)
         | None \<Rightarrow> (JArr [], emit [Log_w ''Invalid environments data format.''] st))"

text \<open>\<open>getForecastKey\<close>: a missing or empty key is logged and returned as it is.\<close>

definition getForecastKey :: "host \<Rightarrow> AccountData \<Rightarrow> static \<Rightarrow> jsstring option \<times> static" where
  "getForecastKey h a st =
     (let k = getEnvData h WeatherTodayEnvKey_FullName
                (WeatherTodayEnvKey_ForecastKey @ ascii ''_'' @ userId a)
      in if k = None \<or> k = Some []
         then (k, emit [Log_w ''Could not load forecast key from environments.''] st)
         else (k, st))"

definition getForecast :: "jsstring option \<Rightarrow> Forecast option" where
  "getForecast k =
     (case k of
        None \<Rightarrow> None
      | Some s \<Rightarrow>
          if s = [] then None
          else Some \<lparr>service = ''darksky'', key = s, units = ''celcius'', cache = True,
                      ttl_minutes = 27, ttl_seconds = 45\<rparr>)"

section \<open>Matching the schedule\<close>

text \<open>The callback of \<open>find\<close>: \<open>s && hours === s.hours && minutes === s.minutes\<close>.\<close>

definition matches :: "Date \<Rightarrow> json \<Rightarrow> bool" where
  "matches d s =
     (truthy s \<and> getProp s (ascii ''hours'') = Some (JNum (of_nat (getHours d)))
        \<and> getProp s (ascii ''minutes'') = Some (JNum (of_nat (getMinutes d))))"

text \<open>
  \<open>scheduleList.find(\<dots>)\<close>: only an array has \<open>find\<close>; on \<open>undefined\<close> and \<open>null\<close> the
  property read throws, on any other value \<open>find\<close> is \<open>undefined\<close> and the call throws.
  \<open>Inr None\<close> is the \<open>undefined\<close> that \<open>find\<close> returns when no element qualifies.
\<close>

definition getMatchedSchedule :: "Date \<Rightarrow> json option \<Rightarrow> error + json option" where
  "getMatchedSchedule d sl =
     (case sl of
        Some (JArr xs) \<Rightarrow> Inr (find (matches d) xs)
      | _ \<Rightarrow> Inl (TypeError ''scheduleList.find''))"

text \<open>
  \<open>isValid\<close>: each static field is loaded while it is falsy, then the current time is
  matched. A fault of the match leaves the fields as they were just set.
\<close>

definition isValid :: "host \<Rightarrow> AccountData \<Rightarrow> Date \<Rightarrow> static \<Rightarrow> (error + bool) \<times> static" where
  "isValid h a d st =
     (let st1 = (if \<not> truthy_opt (scheduleList st)
                 then (let (r, s) = getSchedules h a st
                       in emit [Log_t ''scheduleList''] (s\<lparr>scheduleList := Some r\<rparr>))
                 else st);
          st2 = (if forecast st1 = None
                 then (let (k, s) = getForecastKey h a st1
                       in emit [Log_t ''forecast''] (s\<lparr>forecast := getForecast k\<rparr>))
                 else st1)
      in case getMatchedSchedule d (scheduleList st2) of
           Inl e \<Rightarrow> (Inl e, st2)
         | Inr m \<Rightarrow> (Inr (m \<noteq> None), st2))"

section \<open>Formatting the forecast\<close>

text \<open>\<open>getEmoji\<close> of \<open>weatherToday.ts\<close>: a \<open>switch\<close> with a \<open>default\<close>.\<close>

definition getEmoji :: "jsstring \<Rightarrow> jsstring" where
  "getEmoji i =
     (if i = ascii ''clear-day'' then [0x2600, 0xFE0F]
      else if i = ascii ''clear-night'' then [0xD83C, 0xDF19]
      else if i = ascii ''rain'' then [0xD83C, 0xDF27]
      else if i = ascii ''snow'' then [0x2603, 0xFE0F]
      else if i = ascii ''sleet'' then [0xD83C, 0xDF28]
      else if i = ascii ''wind'' then [0xD83D, 0xDCA8]
      else if i = ascii ''fog'' then [0xD83C, 0xDF2B]
      else if i = ascii ''cloudy'' then [0x2601, 0xFE0F]
      else if i = ascii ''partly-cloudy-day'' then [0x26C5, 0xFE0F]
      else if i = ascii ''partly-cloudy-night'' then [0x2601, 0xFE0F]
      else [0x2753])"

text \<open>
  \<open>getEmoji\<close> of the second file: \<open>WeatherIcons[icon] || '\<dots>'\<close>, a property read on an
  object literal. The read finds an own property, or else a member the literal inherits
  from \<open>Object.prototype\<close> (a function, or the prototype itself for \<open>__proto__\<close>), which
  is truthy, or else \<open>undefined\<close>. The parameter is declared \<open>WeatherIconTypes\<close>, the union
  of the ten keys of the table; the value comes from the provider's JSON at run time.
\<close>

definition WeatherIcons :: "(jsstring \<times> jsstring) list" where
  "WeatherIcons =
     [(ascii ''clear-day'', [0x2600]),
      (ascii ''clear-night'', [0xD83C, 0xDF19]),
      (ascii ''rain'', [0xD83C, 0xDF27]),
      (ascii ''snow'', [0x2603]),
      (ascii ''sleet'', [0xD83C, 0xDF28]),
      (ascii ''wind'', [0xD83D, 0xDCA8]),
      (ascii ''fog'', [0xD83C, 0xDF2B]),
      (ascii ''cloudy'', [0x2601]),
      (ascii ''partly-cloudy-day'', [0x26C5]),
      (ascii ''partly-cloudy-night'', [0x2601])]"

definition known_codes :: "jsstring list" where
  "known_codes = map fst WeatherIcons"

definition Object_prototype :: "jsstring list" where
  "Object_prototype =
     map ascii [''constructor'', ''hasOwnProperty'', ''isPrototypeOf'', ''propertyIsEnumerable'',
       ''toLocaleString'', ''toString'', ''valueOf'', ''__proto__'', ''__defineGetter__'',
       ''__defineSetter__'', ''__lookupGetter__'', ''__lookupSetter__'']"

datatype member = Glyph jsstring | Inherited jsstring

definition WeatherIcons_get :: "jsstring \<Rightarrow> member option" where
  "WeatherIcons_get i =
     (case map_of WeatherIcons i of
        Some g \<Rightarrow> Some (Glyph g)
      | None \<Rightarrow> if i \<in> set Object_prototype then Some (Inherited i) else None)"

definition getEmoji_part000 :: "jsstring \<Rightarrow> member" where
  "getEmoji_part000 i =
     (case WeatherIcons_get i of
        Some (Glyph g) \<Rightarrow> if g = [] then Glyph [0x2753] else Glyph g
      | Some (Inherited k) \<Rightarrow> Inherited k
      | None \<Rightarrow> Glyph [0x2753])"

definition member_toString :: "host \<Rightarrow> member \<Rightarrow> jsstring" where
  "member_toString h m = (case m of Glyph g \<Rightarrow> g | Inherited k \<Rightarrow> Inherited_toString h k)"

definition inter_c :: nat where
  "inter_c = 3"

definition count_c :: nat where
  "count_c = 8"

text \<open>
  The three \<open>text +=\<close> of one round of the loop, for the sample \<open>data\<close>. In
  \<open>weatherToday.ts\<close> the precipitation is the product as it is; the second file rounds it.
\<close>

definition entryText :: "host \<Rightarrow> Weather \<Rightarrow> jsstring" where
  "entryText h d =
     Number_toString h (of_nat (getHours (new_Date h (time d * 1000)))) @ [0x6642, 0x0A]
     @ getEmoji (icon d) @ [0x20]
     @ Number_toString h (of_int (Math_round (temperature d))) @ [0x2103, 0x20]
     @ Number_toString h (Number_multiply h (precipProbability d) 100) @ [0xFF05, 0x0A]
     @ [0x0A]"

definition entryText_part000 :: "host \<Rightarrow> Weather \<Rightarrow> jsstring" where
  "entryText_part000 h d =
     (let temp = Math_round (temperature d);
          precip = Math_round (Number_multiply h (precipProbability d) 100)
      in Number_toString h (of_nat (getHours (new_Date h (time d * 1000)))) @ [0x6642, 0x0A]
         @ member_toString h (getEmoji_part000 (icon d)) @ [0x20]
         @ Number_toString h (of_int temp) @ [0x2103, 0x20]
         @ Number_toString h (of_int precip) @ [0xFF05, 0x0A]
         @ [0x0A])"

text \<open>
  \<open>for (let i = 0; i < count; i++)\<close>, the same in both files but for the entry. An index
  past the end of the array reads \<open>undefined\<close>, and \<open>data.time\<close> then throws.
\<close>

function forecastLoop ::
  "(Weather \<Rightarrow> jsstring) \<Rightarrow> Weather list \<Rightarrow> nat \<Rightarrow> jsstring \<Rightarrow> error + jsstring" where
  "forecastLoop entry ds i text =
     (if i < count_c
      then (if i * inter_c < length ds
            then forecastLoop entry ds (Suc i) (text @ entry (ds ! (i * inter_c)))
            else Inl (TypeError ''data.time''))
      else Inr text)"
  by pat_completeness auto
termination
  by (relation "measure (\<lambda>(entry, ds, i, text). count_c - i)") auto

declare forecastLoop.simps [simp del]

definition header :: "host \<Rightarrow> json \<Rightarrow> jsstring" where
  "header h loc =
     ToString h (getProp loc (ascii ''name'')) @ [0x306E, 0x5929, 0x6C17, 0x4E88, 0x5831, 0x0A, 0x0A]"

definition failureText :: jsstring where
  "failureText =
     [0x5929, 0x6C17, 0x4E88, 0x5831, 0x306E, 0x53D6, 0x5F97, 0x306B, 0x5931, 0x6557, 0x3057,
      0x307E, 0x3057, 0x305F, 0x3002]"

text \<open>
  The text before the length limit, \<open>weatherToday.ts\<close> lines 96 to 113. \<open>loc\<close> is
  \<open>schedule.location\<close>, which is neither \<open>null\<close> nor \<open>undefined\<close> once the fetch was made.
\<close>

definition buildText :: "host \<Rightarrow> json \<Rightarrow> WeatherForcast \<Rightarrow> error + jsstring" where
  "buildText h loc weather =
     (case hourly_data weather of
        None \<Rightarrow> Inl (TypeError ''weather.hourly.data.length'')
      | Some ds \<Rightarrow>
          if inter_c * count_c < length ds
          then (case currently weather of
                  None \<Rightarrow> Inl (TypeError ''weather.currently.time'')
                | Some c \<Rightarrow> forecastLoop (entryText h) ds 0 (header h loc))
          else Inr failureText)"

text \<open>
  The same in the second file, lines 96 to 117: optional chaining, a missing array counts
  as length 0.
\<close>

definition buildText_part000 :: "host \<Rightarrow> json \<Rightarrow> WeatherForcast \<Rightarrow> error + jsstring" where
  "buildText_part000 h loc weather =
     (let ds = (case hourly_data weather of None \<Rightarrow> [] | Some xs \<Rightarrow> xs)
      in if inter_c * count_c < length ds
         then forecastLoop (entryText_part000 h) ds 0 (header h loc)
         else Inr failureText)"

text \<open>The length limit: \<open>if (140 < text.length) { text = text.substr(0, 139); text += \<dots> }\<close>.\<close>

definition limitText :: "jsstring \<Rightarrow> jsstring" where
  "limitText text = (if 140 < length text then take 139 text @ [0x2026] else text)"

text \<open>
  Lines 96 to 119 of \<open>weatherToday.ts\<close> (96 to 123 of the second file) together: the
  text that is handed to \<open>postTweet\<close>.
\<close>

definition format_with ::
  "(host \<Rightarrow> json \<Rightarrow> WeatherForcast \<Rightarrow> error + jsstring) \<Rightarrow>
   host \<Rightarrow> json \<Rightarrow> WeatherForcast \<Rightarrow> error + jsstring" where
  "format_with build h loc weather =
     (case build h loc weather of Inl e \<Rightarrow> Inl e | Inr text \<Rightarrow> Inr (limitText text))"

definition formatText :: "host \<Rightarrow> json \<Rightarrow> WeatherForcast \<Rightarrow> error + jsstring" where
  "formatText = format_with buildText"

definition formatText_part000 :: "host \<Rightarrow> json \<Rightarrow> WeatherForcast \<Rightarrow> error + jsstring" where
  "formatText_part000 = format_with buildText_part000"

section \<open>Running the plugin\<close>

text \<open>
  \<open>tweetWeather\<close>, given the file's way to build the text. \<open>WeatherToday.forecast.get\<close> is
  read first and throws on a missing client; then the argument \<open>schedule.location.point\<close>
  is evaluated and throws on a missing schedule or location. The callback logs an error
  and returns, or builds, limits and posts the text and passes the outcome on to \<open>cb\<close>,
  which \<open>run\<close> forwards to \<open>finish\<close>. A fault in the callback ends it before the post.
\<close>

definition tweetWeather_with ::
  "(host \<Rightarrow> json \<Rightarrow> WeatherForcast \<Rightarrow> error + jsstring) \<Rightarrow>
   host \<Rightarrow> WeatherToday \<Rightarrow> json option \<Rightarrow> static \<Rightarrow> (error + unit) \<times> static" where
  "tweetWeather_with build h this schedule st =
     (case forecast st of
        None \<Rightarrow> (Inl (TypeError ''forecast.get''), st)
      | Some fc \<Rightarrow>
          (case schedule of
             None \<Rightarrow> (Inl (TypeError ''schedule.location''), st)
           | Some JNull \<Rightarrow> (Inl (TypeError ''schedule.location''), st)
           | Some s \<Rightarrow>
               (case getProp s (ascii ''location'') of
                  None \<Rightarrow> (Inl (TypeError ''location.point''), st)
                | Some JNull \<Rightarrow> (Inl (TypeError ''location.point''), st)
                | Some loc \<Rightarrow>
                    (let point = getProp loc (ascii ''point'');
                         st1 = emit [Forecast_get fc point] st
                     in case forecast_get h fc point of
                          FetchError e \<Rightarrow>
                            (Inr (), emit [Log_e ''Error occurred at getting forecast resources.''] st1)
                        | FetchOk weather \<Rightarrow>
                            (case format_with build h loc weather of
                               Inl e \<Rightarrow> (Inl e, st1)
                             | Inr text \<Rightarrow>
                                 (let isSuccess = postTweet h (accountData this) text
                                  in (Inr (),
                                      emit [PostTweet (accountData this) text, Finish isSuccess]
                                        st1)))))))"

definition tweetWeather ::
  "host \<Rightarrow> WeatherToday \<Rightarrow> json option \<Rightarrow> static \<Rightarrow> (error + unit) \<times> static" where
  "tweetWeather = tweetWeather_with buildText"

definition tweetWeather_part000 ::
  "host \<Rightarrow> WeatherToday \<Rightarrow> json option \<Rightarrow> static \<Rightarrow> (error + unit) \<times> static" where
  "tweetWeather_part000 = tweetWeather_with buildText_part000"

text \<open>\<open>run\<close>: the schedule is looked up again, then \<open>tweetWeather\<close> is called with it.\<close>

definition run_with ::
  "(host \<Rightarrow> json \<Rightarrow> WeatherForcast \<Rightarrow> error + jsstring) \<Rightarrow>
   host \<Rightarrow> WeatherToday \<Rightarrow> static \<Rightarrow> (error + unit) \<times> static" where
  "run_with build h this st =
     (case getMatchedSchedule (nowDate this) (scheduleList st) of
        Inl e \<Rightarrow> (Inl e, st)
      | Inr schedule \<Rightarrow> tweetWeather_with build h this schedule st)"

definition run :: "host \<Rightarrow> WeatherToday \<Rightarrow> static \<Rightarrow> (error + unit) \<times> static" where
  "run = run_with buildText"

definition run_part000 :: "host \<Rightarrow> WeatherToday \<Rightarrow> static \<Rightarrow> (error + unit) \<times> static" where
  "run_part000 = run_with buildText_part000"

section \<open>A process: a sequence of calls on the shared static fields\<close>

text \<open>
  The host calls \<open>isValid\<close> and \<open>run\<close> again and again, for any account; each call goes
  on from the static fields and the trace the previous one left, also after a fault.
\<close>

datatype call = IsValid AccountData Date | Run WeatherToday

definition step_with ::
  "(host \<Rightarrow> json \<Rightarrow> WeatherForcast \<Rightarrow> error + jsstring) \<Rightarrow>
   host \<Rightarrow> call \<Rightarrow> static \<Rightarrow> static" where
  "step_with build h c st =
     (case c of
        IsValid a d \<Rightarrow> snd (isValid h a d st)
      | Run this \<Rightarrow> snd (run_with build h this st))"

definition exec_with ::
  "(host \<Rightarrow> json \<Rightarrow> WeatherForcast \<Rightarrow> error + jsstring) \<Rightarrow>
   host \<Rightarrow> call list \<Rightarrow> static \<Rightarrow> static" where
  "exec_with build h cs st = foldl (\<lambda>s c. step_with build h c s) st cs"

text \<open>
  Each computation of a cached value is followed by its \<open>Log.t\<close>; \<open>loads\<close> counts them.
\<close>

definition loads :: "string \<Rightarrow> static \<Rightarrow> nat" where
  "loads tag st = length (filter (\<lambda>e. e = Log_t tag) (trace st))"

section \<open>Example data\<close>

text \<open>
  Schedule entries as \<open>JSON.parse\<close> returns them, two accounts, hourly samples whose
  numbers are exact doubles, and a host: its clock is UTC; its store holds a malformed
  schedule text for \<open>alice\<close>, the text \<open>5\<close> for \<open>bob\<close>, and a forecast key for \<open>bob\<close> only;
  its \<open>JSON.parse\<close> is given on the texts the store holds (and on \<open>undefined\<close>); its
  products are exact, as the doubles' are on the samples here; it prints 12.5 as
  \<open>12.5\<close>, and the examples need no other conversion from it. \<open>host_down\<close> is the same
  host with the provider failing.
\<close>

definition tokyo :: json where
  "tokyo = JObj [(ascii ''name'', JStr (ascii ''Tokyo'')),
                 (ascii ''point'', JArr [JNum (178 / 5), JNum (1397 / 10)])]"

definition osaka :: json where
  "osaka = JObj [(ascii ''name'', JStr (ascii ''Osaka'')),
                 (ascii ''point'', JArr [JNum (347 / 10), JNum (271 / 2)])]"

definition entry_at :: "nat \<Rightarrow> nat \<Rightarrow> json \<Rightarrow> json" where
  "entry_at hh mm loc =
     JObj [(ascii ''hours'', JNum (of_nat hh)), (ascii ''minutes'', JNum (of_nat mm)),
           (ascii ''location'', loc), (ascii ''screenName'', JStr (ascii ''bot''))]"

definition schedules0 :: "json list" where
  "schedules0 = [JNull, entry_at 7 31 osaka, entry_at 7 30 tokyo, entry_at 7 30 osaka]"

definition alice :: AccountData where
  "alice = \<lparr>userId = ascii ''alice''\<rparr>"

definition bob :: AccountData where
  "bob = \<lparr>userId = ascii ''bob''\<rparr>"

definition utc_Date :: "int \<Rightarrow> Date" where
  "utc_Date ms = \<lparr>getHours = nat ((ms div 3600000) mod 24), getMinutes = nat ((ms div 60000) mod 60)\<rparr>"

definition sample :: "int \<Rightarrow> rat \<Rightarrow> rat \<Rightarrow> string \<Rightarrow> Weather" where
  "sample t temp p i = \<lparr>time = t, temperature = temp, precipProbability = p, icon = ascii i\<rparr>"

definition sunny :: Weather where
  "sunny = sample 0 (41 / 2) (1 / 4) ''clear-day''"

definition humid :: Weather where
  "humid = sample 10800 (81 / 4) (1 / 8) ''cloudy''"

definition rainy :: Weather where
  "rainy = sample 0 20 (1 / 2) ''rain''"

definition kabukicho :: json where
  "kabukicho = JObj [(ascii ''name'', JStr (ascii ''Tokyo-Shinjuku-Kabukicho'')),
                     (ascii ''point'', JArr [JNum (357 / 10), JNum (1397 / 10)])]"

definition payload :: "nat \<Rightarrow> Weather \<Rightarrow> WeatherForcast" where
  "payload n d = \<lparr>currently = Some d, hourly_data = Some (replicate n d)\<rparr>"

definition host0 :: host where
  "host0 =
     \<lparr>getEnvData = (\<lambda>f k.
          if f \<noteq> WeatherTodayEnvKey_FullName then None
          else if k = ascii ''SCHEDULES_alice'' then Some (ascii ''{hours:7'')
          else if k = ascii ''SCHEDULES_bob'' then Some (ascii ''5'')
          else if k = ascii ''FORECAST_KEY_bob'' then Some (ascii ''secret'')
          else None),
      JSON_parse = (\<lambda>raw. if raw = Some (ascii ''5'') then Some (JNum 5) else None),
      forecast_get = (\<lambda>fc point. FetchOk (payload 25 sunny)),
      postTweet = (\<lambda>a text. True),
      new_Date = utc_Date,
      Number_multiply = (\<lambda>x y. x * y),
      Number_toString_other = (\<lambda>x. if x = 25 / 2 then ascii ''12.5'' else []),
      ToString_other = (\<lambda>j. []),
      Inherited_toString = (\<lambda>k. [])\<rparr>"

definition host_down :: host where
  "host_down = host0\<lparr>forecast_get := (\<lambda>fc point. FetchError ''ETIMEDOUT'')\<rparr>"

definition fresh :: static where
  "fresh = \<lparr>scheduleList = None, forecast = None, trace = []\<rparr>"

definition client :: Forecast where
  "client = \<lparr>service = ''darksky'', key = ascii ''secret'', units = ''celcius'', cache = True,
             ttl_minutes = 27, ttl_seconds = 45\<rparr>"

definition loaded :: static where
  "loaded = \<lparr>scheduleList = Some (JArr schedules0), forecast = Some client, trace = []\<rparr>"

definition plugin :: "nat \<Rightarrow> nat \<Rightarrow> WeatherToday" where
  "plugin hh mm = \<lparr>accountData = bob, nowDate = \<lparr>getHours = hh, getMinutes = mm\<rparr>,
                    fullName = ascii ''WeatherToday''\<rparr>"

definition rainyText :: jsstring where
  "rainyText = header host0 kabukicho @ concat (replicate 8 (entryText host0 rainy))"

definition calls0 :: "call list" where
  "calls0 = [IsValid bob \<lparr>getHours = 7, getMinutes = 30\<rparr>, Run (plugin 7 30),
             IsValid alice \<lparr>getHours = 7, getMinutes = 31\<rparr>, Run (plugin 7 32)]"

section \<open>The schedule matcher\<close>

lemma matches_iff:
  "matches d s \<longleftrightarrow>
     (\<exists>kvs. s = JObj kvs \<and> map_of kvs (ascii ''hours'') = Some (JNum (of_nat (getHours d)))
        \<and> map_of kvs (ascii ''minutes'') = Some (JNum (of_nat (getMinutes d))))"
  by (cases s) (auto simp: matches_def)

lemma find_first:
  "find P xs = Some x \<Longrightarrow> \<exists>i<length xs. xs ! i = x \<and> P x \<and> (\<forall>j<i. \<not> P (xs ! j))"
  by (auto simp: find_Some_iff)

text \<open>
  Claim C2. For every schedule list and every time, \<open>getMatchedSchedule\<close> returns an
  entry exactly when some entry of the list matches the time, that is, is an object whose
  \<open>hours\<close> and \<open>minutes\<close> are the time's local hour and minute; the entry returned is the
  first one in list order that matches; the empty list gives no match. The function only
  returns a value: it has no state to change.
\<close>

theorem getMatchedSchedule_first_match:
  "getMatchedSchedule d (Some (JArr xs)) = Inr (find (matches d) xs)
   \<and> ((\<exists>s. getMatchedSchedule d (Some (JArr xs)) = Inr (Some s)) \<longleftrightarrow> (\<exists>s\<in>set xs. matches d s))
   \<and> (\<forall>s. getMatchedSchedule d (Some (JArr xs)) = Inr (Some s) \<longrightarrow>
          (\<exists>i<length xs. xs ! i = s \<and> matches d s \<and> (\<forall>j<i. \<not> matches d (xs ! j))))
   \<and> getMatchedSchedule d (Some (JArr [])) = Inr None
   \<and> (\<forall>s. matches d s \<longleftrightarrow>
          (\<exists>kvs. s = JObj kvs
             \<and> map_of kvs (ascii ''hours'') = Some (JNum (of_nat (getHours d)))
             \<and> map_of kvs (ascii ''minutes'') = Some (JNum (of_nat (getMinutes d)))))"
proof -
  have g: "getMatchedSchedule d (Some (JArr ys)) = Inr (find (matches d) ys)" for ys
    by (simp add: getMatchedSchedule_def)
  have a: "(\<exists>s. find (matches d) xs = Some s) \<longleftrightarrow> (\<exists>s\<in>set xs. matches d s)"
    by (metis find_None_iff2 not_Some_eq)
  have b: "\<forall>s. find (matches d) xs = Some s \<longrightarrow>
          (\<exists>i<length xs. xs ! i = s \<and> matches d s \<and> (\<forall>j<i. \<not> matches d (xs ! j)))"
    using find_first by fast
  show ?thesis
    using a b matches_iff by (simp add: g)
qed

lemma schedules0_find:
  "find (matches \<lparr>getHours = 7, getMinutes = 30\<rparr>) schedules0 = Some (entry_at 7 30 tokyo)"
  by code_simp

theorem getMatchedSchedule_first_match_witness:
  "getMatchedSchedule \<lparr>getHours = 7, getMinutes = 30\<rparr> (Some (JArr schedules0))
     = Inr (Some (entry_at 7 30 tokyo))
   \<and> (\<exists>s\<in>set schedules0. matches \<lparr>getHours = 7, getMinutes = 30\<rparr> s)
   \<and> (\<exists>i<length schedules0. schedules0 ! i = entry_at 7 30 tokyo
         \<and> (\<forall>j<i. \<not> matches \<lparr>getHours = 7, getMinutes = 30\<rparr> (schedules0 ! j)))
   \<and> getMatchedSchedule \<lparr>getHours = 7, getMinutes = 31\<rparr> (Some (JArr [entry_at 7 30 tokyo]))
       = Inr None"
proof -
  let ?d = "\<lparr>getHours = 7, getMinutes = 30\<rparr>"
  note t = getMatchedSchedule_first_match [of ?d schedules0]
  have r: "getMatchedSchedule ?d (Some (JArr schedules0)) = Inr (Some (entry_at 7 30 tokyo))"
    using t schedules0_find by simp
  have e: "\<exists>s\<in>set schedules0. matches ?d s"
    using t r by blast
  have f: "\<exists>i<length schedules0. schedules0 ! i = entry_at 7 30 tokyo
         \<and> (\<forall>j<i. \<not> matches ?d (schedules0 ! j))"
    using t r by blast
  have n: "getMatchedSchedule \<lparr>getHours = 7, getMinutes = 31\<rparr> (Some (JArr [entry_at 7 30 tokyo]))
       = Inr None"
    by code_simp
  show ?thesis using r e f n by blast
qed

section \<open>Projections of the state\<close>

lemma getSchedules_fields [simp]:
  "scheduleList (snd (getSchedules h a st)) = scheduleList st"
  "forecast (snd (getSchedules h a st)) = forecast st"
  by (simp_all add: getSchedules_def Let_def emit_def split: option.splits)

lemma getForecastKey_fields [simp]:
  "scheduleList (snd (getForecastKey h a st)) = scheduleList st"
  "forecast (snd (getForecastKey h a st)) = forecast st"
  by (simp_all add: getForecastKey_def Let_def emit_def)

lemma emit_fields [simp]:
  "scheduleList (emit es st) = scheduleList st"
  "forecast (emit es st) = forecast st"
  "trace (emit es st) = trace st @ es"
  by (simp_all add: emit_def)

lemma fst_getForecastKey [simp]:
  "fst (getForecastKey h a st) =
     getEnvData h WeatherTodayEnvKey_FullName (WeatherTodayEnvKey_ForecastKey @ ascii ''_'' @ userId a)"
  by (simp add: getForecastKey_def Let_def)

lemma snd_case_sum [simp]:
  "snd (case x of Inl e \<Rightarrow> (f e, s) | Inr m \<Rightarrow> (g m, s)) = s"
  by (cases x) simp_all

lemma fst_case_sum [simp]:
  "fst (case x of Inl e \<Rightarrow> (f e, s) | Inr m \<Rightarrow> (g m, s)) = (case x of Inl e \<Rightarrow> f e | Inr m \<Rightarrow> g m)"
  by (cases x) simp_all

lemma isValid_scheduleList:
  "scheduleList (snd (isValid h a d st)) =
     (if truthy_opt (scheduleList st) then scheduleList st
      else Some (fst (getSchedules h a st)))"
  by (simp add: isValid_def Let_def case_prod_beta)

lemma isValid_forecast:
  "forecast (snd (isValid h a d st)) =
     (if forecast st = None
      then getForecast (getEnvData h WeatherTodayEnvKey_FullName
             (WeatherTodayEnvKey_ForecastKey @ ascii ''_'' @ userId a))
      else forecast st)"
  by (auto simp: isValid_def Let_def case_prod_beta)

lemma isValid_result:
  "fst (isValid h a d st) =
     (case getMatchedSchedule d (scheduleList (snd (isValid h a d st))) of
        Inl e \<Rightarrow> Inl e
      | Inr m \<Rightarrow> Inr (m \<noteq> None))"
  by (simp add: isValid_def Let_def case_prod_beta)

section \<open>The loader\<close>

text \<open>
  Claim C6. When \<open>JSON.parse\<close> throws on the stored string, \<open>getSchedules\<close> logs a
  warning and returns the empty array: its result has no error case, so nothing is
  propagated. A first \<open>isValid\<close> then caches the empty array and answers \<open>false\<close>.
\<close>

theorem getSchedules_malformed:
  assumes "JSON_parse h (getEnvData h WeatherTodayEnvKey_FullName
       (WeatherTodayEnvKey_Schedules @ ascii ''_'' @ userId a)) = None"
  shows "getSchedules h a st = (JArr [], emit [Log_w ''Invalid environments data format.''] st)
   \<and> (scheduleList st = None \<longrightarrow>
        fst (isValid h a d st) = Inr False
        \<and> scheduleList (snd (isValid h a d st)) = Some (JArr []))"
proof -
  have g: "getSchedules h a st = (JArr [], emit [Log_w ''Invalid environments data format.''] st)"
    using assms by (simp add: getSchedules_def)
  have "scheduleList (snd (isValid h a d st)) = Some (JArr [])" if "scheduleList st = None"
    using that g by (simp add: isValid_scheduleList truthy_opt_def)
  then show ?thesis
    using g by (simp add: isValid_result getMatchedSchedule_def)
qed

theorem getSchedules_malformed_witness:
  "JSON_parse host0 (getEnvData host0 WeatherTodayEnvKey_FullName
       (WeatherTodayEnvKey_Schedules @ ascii ''_'' @ userId alice)) = None
   \<and> getSchedules host0 alice fresh
       = (JArr [], fresh\<lparr>trace := [Log_w ''Invalid environments data format.'']\<rparr>)
   \<and> fst (isValid host0 alice \<lparr>getHours = 7, getMinutes = 30\<rparr> fresh) = Inr False"
proof -
  have p: "JSON_parse host0 (getEnvData host0 WeatherTodayEnvKey_FullName
       (WeatherTodayEnvKey_Schedules @ ascii ''_'' @ userId alice)) = None"
    by code_simp
  have s: "scheduleList fresh = None"
    by (simp add: fresh_def)
  show ?thesis
    using p s getSchedules_malformed [OF p, of fresh "\<lparr>getHours = 7, getMinutes = 30\<rparr>"]
    by (simp add: emit_def fresh_def)
qed

section \<open>A failed fetch\<close>

lemma tweetWeather_with_fetch_error:
  assumes "forecast st = Some fc" and "s \<noteq> JNull"
    and "getProp s (ascii ''location'') = Some loc" and "loc \<noteq> JNull"
    and "forecast_get h fc (getProp loc (ascii ''point'')) = FetchError e"
  shows "tweetWeather_with build h this (Some s) st =
     (Inr (), emit [Forecast_get fc (getProp loc (ascii ''point'')),
                    Log_e ''Error occurred at getting forecast resources.''] st)"
proof -
  obtain kvs where s: "s = JObj kvs"
    using assms(3) by (cases s) auto
  show ?thesis
    using assms unfolding s
    by (cases loc) (simp_all add: tweetWeather_with_def Let_def emit_def)
qed

text \<open>
  Claim C3. When the callback of the fetch receives an error, \<open>run\<close> adds to the trace the
  fetch itself and one error log, and nothing else: no post and no call of \<open>finish\<close>. Both
  files behave the same.
\<close>

theorem fetch_error_stops:
  assumes "forecast st = Some fc"
    and "getMatchedSchedule (nowDate this) (scheduleList st) = Inr (Some s)"
    and "getProp s (ascii ''location'') = Some loc" and "loc \<noteq> JNull"
    and "forecast_get h fc (getProp loc (ascii ''point'')) = FetchError e"
  shows "run h this st =
           (Inr (), st\<lparr>trace := trace st @ [Forecast_get fc (getProp loc (ascii ''point'')),
              Log_e ''Error occurred at getting forecast resources.'']\<rparr>)
         \<and> run_part000 h this st = run h this st
         \<and> (\<forall>a text. PostTweet a text \<notin> set (drop (length (trace st)) (trace (snd (run h this st)))))
         \<and> (\<forall>b. Finish b \<notin> set (drop (length (trace st)) (trace (snd (run h this st)))))"
proof -
  have n: "s \<noteq> JNull"
    using assms(3) by auto
  have r: "run_with build h this st =
           (Inr (), st\<lparr>trace := trace st @ [Forecast_get fc (getProp loc (ascii ''point'')),
              Log_e ''Error occurred at getting forecast resources.'']\<rparr>)" for build
    using tweetWeather_with_fetch_error [OF assms(1) n assms(3,4,5)] assms(2)
    by (simp add: run_with_def emit_def)
  show ?thesis
    by (simp add: run_def run_part000_def r)
qed

theorem fetch_error_stops_witness:
  "forecast loaded = Some client
   \<and> getMatchedSchedule (nowDate (plugin 7 30)) (scheduleList loaded) = Inr (Some (entry_at 7 30 tokyo))
   \<and> getProp (entry_at 7 30 tokyo) (ascii ''location'') = Some tokyo \<and> tokyo \<noteq> JNull
   \<and> forecast_get host_down client (getProp tokyo (ascii ''point'')) = FetchError ''ETIMEDOUT''
   \<and> run host_down (plugin 7 30) loaded =
        (Inr (), loaded\<lparr>trace := [Forecast_get client (getProp tokyo (ascii ''point'')),
              Log_e ''Error occurred at getting forecast resources.'']\<rparr>)"
proof -
  have a: "forecast loaded = Some client"
    by (simp add: loaded_def)
  have b: "getMatchedSchedule (nowDate (plugin 7 30)) (scheduleList loaded)
             = Inr (Some (entry_at 7 30 tokyo))"
    by code_simp
  have c: "getProp (entry_at 7 30 tokyo) (ascii ''location'') = Some tokyo"
    by code_simp
  have d: "tokyo \<noteq> JNull"
    by (simp add: tokyo_def)
  have e: "forecast_get host_down client (getProp tokyo (ascii ''point'')) = FetchError ''ETIMEDOUT''"
    by (simp add: host_down_def)
  have t: "trace loaded = []"
    by (simp add: loaded_def)
  show ?thesis
    using a b c d e fetch_error_stops [OF a b c d e] by (simp add: t)
qed

section \<open>Running without a matching entry\<close>

text \<open>
  Claim C9. When no entry matches at the time of \<open>run\<close>, \<open>getMatchedSchedule\<close> gives
  \<open>undefined\<close> and \<open>tweetWeather\<close> faults on it: with a client in place the fault is the
  read of \<open>schedule.location\<close>; without one the read of \<open>forecast.get\<close> faults first.
  Nothing is fetched, posted or reported, and there is no path that returns quietly.
\<close>

theorem run_without_match_faults:
  "getMatchedSchedule (nowDate this) (scheduleList st) = Inr None \<Longrightarrow>
   run h this st =
     (Inl (TypeError (if forecast st = None then ''forecast.get'' else ''schedule.location'')), st)
   \<and> run_part000 h this st = run h this st"
  by (simp add: run_def run_part000_def run_with_def tweetWeather_with_def split: option.splits)

theorem run_without_match_faults_witness:
  "fst (isValid host0 bob (nowDate (plugin 7 30)) loaded) = Inr True
   \<and> getMatchedSchedule (nowDate (plugin 7 32)) (scheduleList loaded) = Inr None
   \<and> run host0 (plugin 7 32) loaded = (Inl (TypeError ''schedule.location''), loaded)"
proof -
  have v: "fst (isValid host0 bob (nowDate (plugin 7 30)) loaded) = Inr True"
    by code_simp
  have m: "getMatchedSchedule (nowDate (plugin 7 32)) (scheduleList loaded) = Inr None"
    by code_simp
  have f: "forecast loaded \<noteq> None"
    by (simp add: loaded_def)
  show ?thesis
    using v m f run_without_match_faults [OF m, of host0] by simp
qed

section \<open>A stored value that is not an array\<close>

text \<open>
  Claim C10. When the stored string parses to a value that is not an array,
  \<open>getSchedules\<close> returns that value without a warning, the first \<open>isValid\<close> stores it
  in \<open>scheduleList\<close>, and the traversal in \<open>getMatchedSchedule\<close> faults, in \<open>isValid\<close>
  and in a later \<open>run\<close>.
\<close>

theorem non_array_schedule_faults:
  assumes "JSON_parse h (getEnvData h WeatherTodayEnvKey_FullName
       (WeatherTodayEnvKey_Schedules @ ascii ''_'' @ userId a)) = Some v"
    and "\<forall>xs. v \<noteq> JArr xs"
    and "scheduleList st = None"
  shows "getSchedules h a st = (v, st)
         \<and> scheduleList (snd (isValid h a d st)) = Some v
         \<and> fst (isValid h a d st) = Inl (TypeError ''scheduleList.find'')
         \<and> fst (run h this (snd (isValid h a d st))) = Inl (TypeError ''scheduleList.find'')"
proof -
  have g: "getSchedules h a st = (v, st)"
    using assms(1) by (simp add: getSchedules_def)
  have m: "getMatchedSchedule t (Some v) = Inl (TypeError ''scheduleList.find'')" for t
    using assms(2) by (cases v) (simp_all add: getMatchedSchedule_def)
  have s: "scheduleList (snd (isValid h a d st)) = Some v"
    using assms(3) g by (simp add: isValid_scheduleList truthy_opt_def)
  have i: "fst (isValid h a d st) = Inl (TypeError ''scheduleList.find'')"
    using s m by (simp add: isValid_result)
  have r: "fst (run h this (snd (isValid h a d st))) = Inl (TypeError ''scheduleList.find'')"
    using s m by (simp add: run_def run_with_def)
  show ?thesis
    using g s i r by simp
qed

theorem non_array_schedule_faults_witness:
  "JSON_parse host0 (getEnvData host0 WeatherTodayEnvKey_FullName
       (WeatherTodayEnvKey_Schedules @ ascii ''_'' @ userId bob)) = Some (JNum 5)
   \<and> getSchedules host0 bob fresh = (JNum 5, fresh)
   \<and> scheduleList (snd (isValid host0 bob (nowDate (plugin 7 30)) fresh)) = Some (JNum 5)
   \<and> fst (isValid host0 bob (nowDate (plugin 7 30)) fresh) = Inl (TypeError ''scheduleList.find'')"
proof -
  have p: "JSON_parse host0 (getEnvData host0 WeatherTodayEnvKey_FullName
       (WeatherTodayEnvKey_Schedules @ ascii ''_'' @ userId bob)) = Some (JNum 5)"
    by code_simp
  have n: "\<forall>xs. JNum 5 \<noteq> JArr xs"
    by simp
  have s: "scheduleList fresh = None"
    by (simp add: fresh_def)
  show ?thesis
    using p non_array_schedule_faults [OF p n s, of "nowDate (plugin 7 30)" "plugin 7 30"]
    by simp
qed

section \<open>The formatter: enough samples or the fixed message\<close>

lemma forecastLoop_all:
  "i \<le> count_c \<Longrightarrow> (count_c - 1) * inter_c < length ds \<Longrightarrow>
   forecastLoop entry ds  i acc =
     Inr (acc @ concat (map (\<lambda>j. entry (ds ! (j * inter_c))) [i..<count_c]))"
proof (induction "count_c - i" arbitrary:  i acc)
  case 0
  then show ?case
    by (simp add: forecastLoop.simps)
next
  case (Suc n)
  then have lt: "i < count_c"
    by simp
  then have "i \<le> count_c - 1"
    by arith
  then have "i * inter_c \<le> (count_c - 1) * inter_c"
    by (rule mult_le_mono1)
  then have inb: "i * inter_c < length ds"
    using Suc.prems(2) by (rule le_less_trans)
  have ih: "forecastLoop entry ds (Suc i) (acc @ entry (ds ! (i * inter_c))) =
     Inr ((acc @ entry (ds ! (i * inter_c)))
          @ concat (map (\<lambda>j. entry (ds ! (j * inter_c))) [Suc i..<count_c]))"
    using Suc.hyps(1) [of "Suc i"] Suc.hyps(2) lt Suc.prems(2) by simp
  show ?case
    using lt inb ih
    by (subst forecastLoop.simps) (simp add: upt_conv_Cons)
qed

lemma forecastLoop_eight:
  assumes "24 < length ds"
  shows "forecastLoop entry ds 0 acc =
           Inr (acc @ concat (map (\<lambda>i. entry (ds ! (i * 3))) [0..<8]))"
  using forecastLoop_all [of 0 ds entry acc] assms
  by (simp add: count_c_def inter_c_def)

lemma length_codePoints_le: "length (codePoints xs) \<le> length xs"
  by (induction xs rule: codePoints.induct) auto

lemma limitText_failureText: "limitText failureText = failureText"
  by (simp add: limitText_def failureText_def)

text \<open>
  Claim C1, as amended. The guard is \<open>inter * count < length\<close>: with at most 24 hourly
  samples the text is exactly the fixed failure message, in both files. With 25 or more
  the text built is the header, \<open>schedule.location.name\<close> followed by the fixed title and a
  blank line, followed by exactly eight entries, the \<open>i\<close>-th one made from the sample at
  index \<open>3 * i\<close> (in \<open>weatherToday.ts\<close> provided the payload has \<open>currently\<close>, which that
  file reads); what is posted is that text through the length limit, which leaves a text of
  at most 140 code units as it is.
\<close>

theorem format_threshold:
  assumes "hourly_data weather = Some ds"
  shows "(length ds \<le> 24 \<longrightarrow>
            formatText h loc weather = Inr failureText
            \<and> formatText_part000 h loc weather = Inr failureText)
       \<and> (24 < length ds \<longrightarrow>
            (currently weather \<noteq> None \<longrightarrow>
               buildText h loc weather =
                 Inr (header h loc @ concat (map (\<lambda>i. entryText h (ds ! (i * 3))) [0..<8]))
               \<and> formatText h loc weather =
                 Inr (limitText (header h loc
                        @ concat (map (\<lambda>i. entryText h (ds ! (i * 3))) [0..<8]))))
            \<and> buildText_part000 h loc weather =
                 Inr (header h loc @ concat (map (\<lambda>i. entryText_part000 h (ds ! (i * 3))) [0..<8]))
            \<and> formatText_part000 h loc weather =
                 Inr (limitText (header h loc
                        @ concat (map (\<lambda>i. entryText_part000 h (ds ! (i * 3))) [0..<8]))))
       \<and> (\<forall>text. length text \<le> 140 \<longrightarrow> limitText text = text)"
proof -
  have a: "buildText h loc weather = Inr failureText" if "length ds \<le> 24"
    using assms that by (simp add: buildText_def inter_c_def count_c_def)
  have b: "buildText_part000 h loc weather = Inr failureText" if "length ds \<le> 24"
    using assms that by (simp add: buildText_part000_def inter_c_def count_c_def)
  have c: "buildText h loc weather =
             Inr (header h loc @ concat (map (\<lambda>i. entryText h (ds ! (i * 3))) [0..<8]))"
    if "24 < length ds" "currently weather \<noteq> None"
    using assms that forecastLoop_eight [OF that(1)]
    by (auto simp: buildText_def inter_c_def count_c_def)
  have d: "buildText_part000 h loc weather =
             Inr (header h loc @ concat (map (\<lambda>i. entryText_part000 h (ds ! (i * 3))) [0..<8]))"
    if "24 < length ds"
    using assms that forecastLoop_eight [OF that]
    by (simp add: buildText_part000_def inter_c_def count_c_def)
  have e: "\<forall>text. length text \<le> 140 \<longrightarrow> limitText text = text"
    by (simp add: limitText_def)
  show ?thesis
    using a b c d e
    by (simp add: formatText_def formatText_part000_def format_with_def limitText_failureText)
qed

lemma header_tokyo:
  "header host0 tokyo = ascii ''Tokyo'' @ [0x306E, 0x5929, 0x6C17, 0x4E88, 0x5831, 0x0A, 0x0A]"
  by code_simp

lemma entryText_sunny:
  "entryText host0 sunny =
     [0x30, 0x6642, 0x0A, 0x2600, 0xFE0F, 0x20, 0x32, 0x31, 0x2103, 0x20, 0x32, 0x35, 0xFF05,
      0x0A, 0x0A]"
  by code_simp

lemma replicate_sunny: "i < 8 \<Longrightarrow> replicate 25 sunny ! (i * 3) = sunny"
  by simp

theorem format_threshold_witness:
  "hourly_data (payload 25 sunny) = Some (replicate 25 sunny)
   \<and> 24 < length (replicate 25 sunny)
   \<and> currently (payload 25 sunny) \<noteq> None
   \<and> formatText host0 tokyo (payload 25 sunny) =
       Inr (ascii ''Tokyo'' @ [0x306E, 0x5929, 0x6C17, 0x4E88, 0x5831, 0x0A, 0x0A]
            @ concat (replicate 8
                [0x30, 0x6642, 0x0A, 0x2600, 0xFE0F, 0x20, 0x32, 0x31, 0x2103, 0x20, 0x32, 0x35,
                 0xFF05, 0x0A, 0x0A]))
   \<and> formatText host0 tokyo (payload 23 sunny) = Inr failureText"
proof -
  have p: "hourly_data (payload n sunny) = Some (replicate n sunny)" for n
    by (simp add: payload_def)
  have c: "currently (payload 25 sunny) \<noteq> None"
    by (simp add: payload_def)
  have m: "map (\<lambda>i. entryText host0 (replicate 25 sunny ! (i * 3))) [0..<8]
             = replicate 8 (entryText host0 sunny)"
    by (simp add: upt_rec numeral_eq_Suc)
  have l: "length (header host0 tokyo @ concat (replicate 8 (entryText host0 sunny))) \<le> 140"
    by (simp add: header_tokyo entryText_sunny ascii_def numeral_eq_Suc)
  have f: "formatText host0 tokyo (payload 25 sunny) =
       Inr (header host0 tokyo @ concat (replicate 8 (entryText host0 sunny)))"
    using format_threshold [OF p, of 25 host0 tokyo] c l by (simp add: m)
  have g: "formatText host0 tokyo (payload 23 sunny) = Inr failureText"
    using format_threshold [OF p, of 23 host0 tokyo] by simp
  show ?thesis
    using p c f g by (simp add: header_tokyo entryText_sunny)
qed

text \<open>
  The claim as stated fails at exactly 24 samples: both files answer with the failure
  message, which does not start with the header.
\<close>

theorem format_threshold_counterexample:
  "hourly_data (payload 24 sunny) = Some (replicate 24 sunny)
   \<and> length (replicate 24 sunny) = 24
   \<and> formatText host0 tokyo (payload 24 sunny) = Inr failureText
   \<and> formatText_part000 host0 tokyo (payload 24 sunny) = Inr failureText
   \<and> take (length (header host0 tokyo)) failureText \<noteq> header host0 tokyo"
proof -
  have a: "formatText host0 tokyo (payload 24 sunny) = Inr failureText"
    by (simp add: formatText_def format_with_def buildText_def payload_def inter_c_def
        count_c_def limitText_failureText)
  have b: "formatText_part000 host0 tokyo (payload 24 sunny) = Inr failureText"
    by (simp add: formatText_part000_def format_with_def buildText_part000_def payload_def
        inter_c_def count_c_def limitText_failureText)
  have c: "take (length (header host0 tokyo)) failureText \<noteq> header host0 tokyo"
    by code_simp
  show ?thesis
    using a b c by (simp add: payload_def)
qed

section \<open>The length limit\<close>

lemma take_append_nth: "n < length xs \<Longrightarrow> (take n xs @ [x]) ! n = x"
  by (simp add: nth_append)

text \<open>
  Claim C4, as amended. The text handed on is at most 140 UTF-16 code units long (what
  \<open>text.length\<close> counts), hence at most 140 code points. Whenever the text built has more
  than 140 code units, the result is its first 139 code units followed by the ellipsis,
  which is then the 140th code unit; a text of at most 140 code units is left as it is.
\<close>

theorem limitText_bound:
  "length (limitText t) \<le> 140
   \<and> (140 < length t \<longrightarrow>
        limitText t = take 139 t @ [0x2026] \<and> length (limitText t) = 140
        \<and> limitText t ! 139 = 0x2026)
   \<and> (length t \<le> 140 \<longrightarrow> limitText t = t)
   \<and> length (codePoints (limitText t)) \<le> 140
   \<and> (\<forall>r. format_with build h loc weather = Inr r \<longrightarrow>
          length r \<le> 140 \<and> (\<exists>b. build h loc weather = Inr b \<and> r = limitText b))"
proof -
  have a: "length (limitText t) \<le> 140" for t
    by (simp add: limitText_def)
  have b: "limitText t ! 139 = 0x2026" if "140 < length t"
    using that take_append_nth [of 139 t "0x2026"] by (simp add: limitText_def)
  have c: "length (codePoints (limitText t)) \<le> 140"
    using length_codePoints_le [of "limitText t"] a [of t] by (rule le_trans)
  have d: "\<forall>r. format_with build h loc weather = Inr r \<longrightarrow>
          length r \<le> 140 \<and> (\<exists>b. build h loc weather = Inr b \<and> r = limitText b)"
    using a by (auto simp: format_with_def split: sum.splits)
  show ?thesis
    using a [of t] b c d by (simp add: limitText_def)
qed

theorem limitText_bound_witness:
  "140 < length (replicate 141 (0x61 :: 16 word))
   \<and> limitText (replicate 141 0x61) = replicate 139 0x61 @ [0x2026]
   \<and> length (failureText) \<le> 140 \<and> limitText failureText = failureText
   \<and> formatText host0 tokyo (payload 25 sunny)
        = Inr (header host0 tokyo @ concat (replicate 8 (entryText host0 sunny)))"
proof -
  let ?t = "replicate 141 (0x61 :: 16 word)"
  note th = limitText_bound [of ?t buildText host0 tokyo "payload 25 sunny"]
  note tf = limitText_bound [of failureText buildText host0 tokyo "payload 25 sunny"]
  have l: "140 < length ?t"
    by simp
  have k: "take 139 ?t = replicate 139 0x61"
    by simp
  have f: "length failureText \<le> 140"
    by (simp add: failureText_def)
  have g: "formatText host0 tokyo (payload 25 sunny)
        = Inr (header host0 tokyo @ concat (replicate 8 (entryText host0 sunny)))"
    by code_simp
  show ?thesis
    using th tf l k f g by simp
qed

text \<open>
  Counted in code points the claim fails. For a location name of 24 letters and rain in
  all eight samples the text built has 151 code units and 143 code points. The result is
  the first 139 code units and the ellipsis: 133 code points, not the first 139 code points
  and an ellipsis in 140th place.
\<close>

lemma rainyText_built: "buildText host0 kabukicho (payload 25 rainy) = Inr rainyText"
  by code_simp

lemma rainyText_units: "length rainyText = 151"
  by code_simp

lemma rainyText_points: "length (codePoints rainyText) = 143"
  by code_simp

lemma rainyText_limited: "length (codePoints (limitText rainyText)) = 133"
  by code_simp

theorem limitText_code_points_counterexample:
  "buildText host0 kabukicho (payload 25 rainy) = Inr rainyText
   \<and> 140 < length (codePoints rainyText)
   \<and> length (codePoints (limitText rainyText)) = 133
   \<and> limitText rainyText \<noteq> concat (take 139 (codePoints rainyText)) @ [0x2026]"
proof -
  have "length (codePoints (concat (take 139 (codePoints rainyText)) @ [0x2026])) = 140"
    by code_simp
  then have "limitText rainyText \<noteq> concat (take 139 (codePoints rainyText)) @ [0x2026]"
    using rainyText_limited by auto
  then show ?thesis
    using rainyText_built rainyText_points rainyText_limited by simp
qed

section \<open>One entry of the forecast\<close>

lemma entryText_part000_rounds:
  "entryText_part000 h d =
     Number_toString h (of_nat (getHours (new_Date h (time d * 1000)))) @ [0x6642, 0x0A]
     @ member_toString h (getEmoji_part000 (icon d)) @ [0x20]
     @ Number_toString h (of_int (Math_round (temperature d))) @ [0x2103, 0x20]
     @ Number_toString h (of_int (Math_round (Number_multiply h (precipProbability d) 100)))
     @ [0xFF05, 0x0A, 0x0A]"
  by (simp add: entryText_part000_def Let_def)

lemma Number_toString_int:
  "\<bar>i\<bar> < 2 ^ 53 \<Longrightarrow> Number_toString h (of_int i) = intToString i"
proof -
  assume "\<bar>i\<bar> < 2 ^ 53"
  then have "\<bar>rat_of_int i\<bar> < 2 ^ 53"
    by (metis of_int_abs of_int_less_iff of_int_numeral of_int_power)
  then show ?thesis
    by (simp add: Number_toString_def)
qed

text \<open>
  Claim C5, at a sample with precipitation probability 0.125 (temperature 20.25, cloudy,
  03:00 for a host in UTC). \<open>weatherToday.ts\<close> prints the product 12.5 as it is; the second
  file rounds it and prints 13, as the claim says. Hour, emoji, rounded temperature and the
  blank line are as claimed in both.
\<close>

theorem entryText_precipitation_unrounded:
  "precipProbability humid = 1 / 8
   \<and> entryText host0 humid =
       [0x33, 0x6642, 0x0A, 0x2601, 0xFE0F, 0x20, 0x32, 0x30, 0x2103, 0x20,
        0x31, 0x32, 0x2E, 0x35, 0xFF05, 0x0A, 0x0A]
   \<and> entryText_part000 host0 humid =
       [0x33, 0x6642, 0x0A, 0x2601, 0x20, 0x32, 0x30, 0x2103, 0x20,
        0x31, 0x33, 0xFF05, 0x0A, 0x0A]"
  by code_simp

section \<open>The emoji of a sky-condition code\<close>

lemma map_of_WeatherIcons_None:
  "i \<notin> set known_codes \<Longrightarrow> map_of WeatherIcons i = None"
  by (simp add: known_codes_def map_of_eq_None_iff)

lemma Object_prototype_disjoint: "\<forall>i\<in>set Object_prototype. i \<notin> set known_codes"
  by code_simp

lemma Object_prototype_unknown: "i \<in> set Object_prototype \<Longrightarrow> map_of WeatherIcons i = None"
  using Object_prototype_disjoint map_of_WeatherIcons_None by blast

text \<open>
  Claim C8. For every sky-condition code, \<open>getEmoji\<close> maps each of the ten known codes
  to its glyph (the second file's glyphs lack the variation selector \<open>U+FE0F\<close>) and every
  other code to the question mark. In \<open>weatherToday.ts\<close> the \<open>switch\<close> does so for every
  other string. In the second file the table lookup does so for every other string that can
  be a sky-condition code: every string but the twelve names of the members of
  \<open>Object.prototype\<close>. Those names are no codes of the provider and lie outside the declared
  parameter type \<open>WeatherIconTypes\<close>; on them the property read finds the inherited member.
\<close>

theorem getEmoji_glyphs:
  "getEmoji (ascii ''clear-day'') = [0x2600, 0xFE0F]
   \<and> getEmoji (ascii ''clear-night'') = [0xD83C, 0xDF19]
   \<and> getEmoji (ascii ''rain'') = [0xD83C, 0xDF27]
   \<and> getEmoji (ascii ''snow'') = [0x2603, 0xFE0F]
   \<and> getEmoji (ascii ''sleet'') = [0xD83C, 0xDF28]
   \<and> getEmoji (ascii ''wind'') = [0xD83D, 0xDCA8]
   \<and> getEmoji (ascii ''fog'') = [0xD83C, 0xDF2B]
   \<and> getEmoji (ascii ''cloudy'') = [0x2601, 0xFE0F]
   \<and> getEmoji (ascii ''partly-cloudy-day'') = [0x26C5, 0xFE0F]
   \<and> getEmoji (ascii ''partly-cloudy-night'') = [0x2601, 0xFE0F]
   \<and> (i \<notin> set known_codes \<longrightarrow> getEmoji i = [0x2753])
   \<and> getEmoji_part000 (ascii ''clear-day'') = Glyph [0x2600]
   \<and> getEmoji_part000 (ascii ''clear-night'') = Glyph [0xD83C, 0xDF19]
   \<and> getEmoji_part000 (ascii ''rain'') = Glyph [0xD83C, 0xDF27]
   \<and> getEmoji_part000 (ascii ''snow'') = Glyph [0x2603]
   \<and> getEmoji_part000 (ascii ''sleet'') = Glyph [0xD83C, 0xDF28]
   \<and> getEmoji_part000 (ascii ''wind'') = Glyph [0xD83D, 0xDCA8]
   \<and> getEmoji_part000 (ascii ''fog'') = Glyph [0xD83C, 0xDF2B]
   \<and> getEmoji_part000 (ascii ''cloudy'') = Glyph [0x2601]
   \<and> getEmoji_part000 (ascii ''partly-cloudy-day'') = Glyph [0x26C5]
   \<and> getEmoji_part000 (ascii ''partly-cloudy-night'') = Glyph [0x2601]
   \<and> (i \<notin> set known_codes \<and> i \<notin> set Object_prototype \<longrightarrow> getEmoji_part000 i = Glyph [0x2753])
   \<and> (i \<in> set Object_prototype \<longrightarrow> getEmoji_part000 i = Inherited i)
   \<and> known_codes = map ascii [''clear-day'', ''clear-night'', ''rain'', ''snow'', ''sleet'', ''wind'',
        ''fog'', ''cloudy'', ''partly-cloudy-day'', ''partly-cloudy-night'']"
proof -
  have s: "getEmoji (ascii ''clear-day'') = [0x2600, 0xFE0F]
   \<and> getEmoji (ascii ''clear-night'') = [0xD83C, 0xDF19]
   \<and> getEmoji (ascii ''rain'') = [0xD83C, 0xDF27]
   \<and> getEmoji (ascii ''snow'') = [0x2603, 0xFE0F]
   \<and> getEmoji (ascii ''sleet'') = [0xD83C, 0xDF28]
   \<and> getEmoji (ascii ''wind'') = [0xD83D, 0xDCA8]
   \<and> getEmoji (ascii ''fog'') = [0xD83C, 0xDF2B]
   \<and> getEmoji (ascii ''cloudy'') = [0x2601, 0xFE0F]
   \<and> getEmoji (ascii ''partly-cloudy-day'') = [0x26C5, 0xFE0F]
   \<and> getEmoji (ascii ''partly-cloudy-night'') = [0x2601, 0xFE0F]"
    by code_simp
  have t: "getEmoji_part000 (ascii ''clear-day'') = Glyph [0x2600]
   \<and> getEmoji_part000 (ascii ''clear-night'') = Glyph [0xD83C, 0xDF19]
   \<and> getEmoji_part000 (ascii ''rain'') = Glyph [0xD83C, 0xDF27]
   \<and> getEmoji_part000 (ascii ''snow'') = Glyph [0x2603]
   \<and> getEmoji_part000 (ascii ''sleet'') = Glyph [0xD83C, 0xDF28]
   \<and> getEmoji_part000 (ascii ''wind'') = Glyph [0xD83D, 0xDCA8]
   \<and> getEmoji_part000 (ascii ''fog'') = Glyph [0xD83C, 0xDF2B]
   \<and> getEmoji_part000 (ascii ''cloudy'') = Glyph [0x2601]
   \<and> getEmoji_part000 (ascii ''partly-cloudy-day'') = Glyph [0x26C5]
   \<and> getEmoji_part000 (ascii ''partly-cloudy-night'') = Glyph [0x2601]"
    by code_simp
  have k: "known_codes = map ascii [''clear-day'', ''clear-night'', ''rain'', ''snow'', ''sleet'',
        ''wind'', ''fog'', ''cloudy'', ''partly-cloudy-day'', ''partly-cloudy-night'']"
    by (simp add: known_codes_def WeatherIcons_def)
  have d: "getEmoji i = [0x2753]" if "i \<notin> set known_codes"
    using that unfolding k by (simp add: getEmoji_def)
  have e: "getEmoji_part000 i = Glyph [0x2753]"
    if "i \<notin> set known_codes" "i \<notin> set Object_prototype"
    using that map_of_WeatherIcons_None [OF that(1)]
    by (simp add: getEmoji_part000_def WeatherIcons_get_def)
  have f: "getEmoji_part000 i = Inherited i" if "i \<in> set Object_prototype"
    using that Object_prototype_unknown [OF that]
    by (simp add: getEmoji_part000_def WeatherIcons_get_def)
  show ?thesis
    using s t k d e f by blast
qed

theorem getEmoji_glyphs_witness:
  "ascii ''hail'' \<notin> set known_codes \<and> ascii ''hail'' \<notin> set Object_prototype
   \<and> getEmoji (ascii ''hail'') = [0x2753]
   \<and> getEmoji_part000 (ascii ''hail'') = Glyph [0x2753]
   \<and> ascii ''valueOf'' \<in> set Object_prototype
   \<and> getEmoji (ascii ''valueOf'') = [0x2753]
   \<and> getEmoji_part000 (ascii ''valueOf'') = Inherited (ascii ''valueOf'')"
proof -
  have a: "ascii ''hail'' \<notin> set known_codes"
    by code_simp
  have b: "ascii ''hail'' \<notin> set Object_prototype"
    by code_simp
  have c: "ascii ''valueOf'' \<in> set Object_prototype"
    by code_simp
  have d: "ascii ''valueOf'' \<notin> set known_codes"
    by code_simp
  show ?thesis
    using a b c d getEmoji_glyphs [of "ascii ''hail''"] getEmoji_glyphs [of "ascii ''valueOf''"]
    by blast
qed

section \<open>The cached schedule list and client\<close>

lemma loads_emit [simp]:
  "loads tag (emit es st) = loads tag st + length (filter (\<lambda>e. e = Log_t tag) es)"
  by (simp add: loads_def emit_def)

lemma loads_update [simp]:
  "loads tag (st\<lparr>scheduleList := x\<rparr>) = loads tag st"
  "loads tag (st\<lparr>forecast := y\<rparr>) = loads tag st"
  by (simp_all add: loads_def)

lemma loads_getSchedules [simp]: "loads tag (snd (getSchedules h a st)) = loads tag st"
  by (simp add: getSchedules_def Let_def split: option.splits)

lemma loads_getForecastKey [simp]: "loads tag (snd (getForecastKey h a st)) = loads tag st"
  by (simp add: getForecastKey_def Let_def)

lemma isValid_loads_scheduleList:
  "loads ''scheduleList'' (snd (isValid h a d st)) =
     (if truthy_opt (scheduleList st) then loads ''scheduleList'' st
      else Suc (loads ''scheduleList'' st))"
  by (simp add: isValid_def Let_def case_prod_beta)

lemma isValid_loads_forecast:
  "loads ''forecast'' (snd (isValid h a d st)) =
     (if forecast st = None then Suc (loads ''forecast'' st) else loads ''forecast'' st)"
  by (simp add: isValid_def Let_def case_prod_beta)

lemma tweetWeather_with_keeps:
  "scheduleList (snd (tweetWeather_with build h this sch st)) = scheduleList st
   \<and> forecast (snd (tweetWeather_with build h this sch st)) = forecast st
   \<and> loads tag (snd (tweetWeather_with build h this sch st)) = loads tag st"
  by (simp add: tweetWeather_with_def Let_def
      split: option.splits json.splits fetched.splits sum.splits)

lemma run_with_keeps:
  "scheduleList (snd (run_with build h this st)) = scheduleList st
   \<and> forecast (snd (run_with build h this st)) = forecast st
   \<and> loads tag (snd (run_with build h this st)) = loads tag st"
  using tweetWeather_with_keeps [of build h this _ st tag]
  by (simp add: run_with_def split: sum.splits)

lemma step_with_scheduleList:
  "truthy_opt (scheduleList st) \<Longrightarrow>
   scheduleList (step_with build h c st) = scheduleList st
   \<and> loads ''scheduleList'' (step_with build h c st) = loads ''scheduleList'' st"
  by (cases c) (simp_all add: step_with_def isValid_scheduleList isValid_loads_scheduleList run_with_keeps)

lemma step_with_forecast:
  "forecast st \<noteq> None \<Longrightarrow>
   forecast (step_with build h c st) = forecast st
   \<and> loads ''forecast'' (step_with build h c st) = loads ''forecast'' st"
  by (cases c) (auto simp: step_with_def isValid_forecast isValid_loads_forecast run_with_keeps)

lemma exec_with_scheduleList:
  "truthy_opt (scheduleList st) \<Longrightarrow>
   scheduleList (exec_with build h cs st) = scheduleList st
   \<and> loads ''scheduleList'' (exec_with build h cs st) = loads ''scheduleList'' st"
proof (induction cs arbitrary: st)
  case Nil
  then show ?case
    by (simp add: exec_with_def)
next
  case (Cons c cs)
  have s: "scheduleList (step_with build h c st) = scheduleList st
           \<and> loads ''scheduleList'' (step_with build h c st) = loads ''scheduleList'' st"
    using Cons.prems by (rule step_with_scheduleList)
  then have "truthy_opt (scheduleList (step_with build h c st))"
    using Cons.prems by simp
  then show ?case
    using Cons.IH [of "step_with build h c st"] s by (simp add: exec_with_def)
qed

lemma exec_with_forecast:
  "forecast st \<noteq> None \<Longrightarrow>
   forecast (exec_with build h cs st) = forecast st
   \<and> loads ''forecast'' (exec_with build h cs st) = loads ''forecast'' st"
proof (induction cs arbitrary: st)
  case Nil
  then show ?case
    by (simp add: exec_with_def)
next
  case (Cons c cs)
  have s: "forecast (step_with build h c st) = forecast st
           \<and> loads ''forecast'' (step_with build h c st) = loads ''forecast'' st"
    using Cons.prems by (rule step_with_forecast)
  then have "forecast (step_with build h c st) \<noteq> None"
    using Cons.prems by simp
  then show ?case
    using Cons.IH [of "step_with build h c st"] s by (simp add: exec_with_def)
qed

text \<open>
  Claim C7, as amended. Each cached value is loaded until it is set: an \<open>isValid\<close> call
  computes the schedule list exactly when the cached one is falsy, and the client exactly
  when there is none, from the account of that call. Once the schedule list is truthy (any
  array, also the empty one of a failed parse) or the client exists, no sequence of later
  \<open>isValid\<close> and \<open>run\<close> calls changes it or computes it again.
\<close>

theorem cache_loaded_until_set:
  "(truthy_opt (scheduleList st) \<longrightarrow>
      scheduleList (exec_with build h cs st) = scheduleList st
      \<and> loads ''scheduleList'' (exec_with build h cs st) = loads ''scheduleList'' st)
   \<and> (forecast st \<noteq> None \<longrightarrow>
      forecast (exec_with build h cs st) = forecast st
      \<and> loads ''forecast'' (exec_with build h cs st) = loads ''forecast'' st)
   \<and> (\<not> truthy_opt (scheduleList st) \<longrightarrow>
      scheduleList (snd (isValid h a d st)) = Some (fst (getSchedules h a st))
      \<and> loads ''scheduleList'' (snd (isValid h a d st)) = Suc (loads ''scheduleList'' st))
   \<and> (forecast st = None \<longrightarrow>
      forecast (snd (isValid h a d st)) =
        getForecast (getEnvData h WeatherTodayEnvKey_FullName
          (WeatherTodayEnvKey_ForecastKey @ ascii ''_'' @ userId a))
      \<and> loads ''forecast'' (snd (isValid h a d st)) = Suc (loads ''forecast'' st))"
  using exec_with_scheduleList [of st build h cs] exec_with_forecast [of st build h cs]
  by (simp add: isValid_scheduleList isValid_forecast isValid_loads_scheduleList
      isValid_loads_forecast)

theorem cache_loaded_until_set_witness:
  "truthy_opt (scheduleList loaded) \<and> forecast loaded \<noteq> None
   \<and> scheduleList (exec_with buildText host0 calls0 loaded) = Some (JArr schedules0)
   \<and> forecast (exec_with buildText host0 calls0 loaded) = Some client
   \<and> loads ''scheduleList'' (exec_with buildText host0 calls0 loaded) = 0
   \<and> \<not> truthy_opt (scheduleList fresh) \<and> forecast fresh = None
   \<and> scheduleList (snd (isValid host0 bob \<lparr>getHours = 7, getMinutes = 30\<rparr> fresh)) = Some (JNum 5)
   \<and> forecast (snd (isValid host0 bob \<lparr>getHours = 7, getMinutes = 30\<rparr> fresh)) = Some client
   \<and> loads ''forecast'' (snd (isValid host0 bob \<lparr>getHours = 7, getMinutes = 30\<rparr> fresh)) = 1"
proof -
  let ?d = "\<lparr>getHours = 7, getMinutes = 30\<rparr>"
  have a: "truthy_opt (scheduleList loaded)"
    by (simp add: loaded_def truthy_opt_def)
  have b: "forecast loaded \<noteq> None"
    by (simp add: loaded_def)
  have c: "\<not> truthy_opt (scheduleList fresh)"
    by (simp add: fresh_def truthy_opt_def)
  have d: "forecast fresh = None"
    by (simp add: fresh_def)
  have e: "fst (getSchedules host0 bob fresh) = JNum 5"
    by code_simp
  have f: "getForecast (getEnvData host0 WeatherTodayEnvKey_FullName
          (WeatherTodayEnvKey_ForecastKey @ ascii ''_'' @ userId bob)) = Some client"
    by code_simp
  have g: "loads tag loaded = 0" "loads tag fresh = 0" for tag
    by (simp_all add: loads_def loaded_def fresh_def)
  have l: "scheduleList loaded = Some (JArr schedules0)" "forecast loaded = Some client"
    by (simp_all add: loaded_def)
  show ?thesis
    using a b c d e f g l
      cache_loaded_until_set [of loaded buildText host0 calls0 bob ?d]
      cache_loaded_until_set [of fresh buildText host0 calls0 bob ?d]
    by simp
qed

text \<open>
  The claim as stated fails when the first account has no forecast key: the client stays
  \<open>null\<close> after the first check, and the second check, for another account, computes it
  again, from that account's key.
\<close>

theorem cache_computed_twice_counterexample:
  "forecast (exec_with buildText host0 [IsValid alice \<lparr>getHours = 7, getMinutes = 30\<rparr>] fresh) = None
   \<and> loads ''forecast''
        (exec_with buildText host0 [IsValid alice \<lparr>getHours = 7, getMinutes = 30\<rparr>] fresh) = 1
   \<and> forecast (exec_with buildText host0
        [IsValid alice \<lparr>getHours = 7, getMinutes = 30\<rparr>,
         IsValid bob \<lparr>getHours = 7, getMinutes = 31\<rparr>] fresh) = Some client
   \<and> loads ''forecast'' (exec_with buildText host0
        [IsValid alice \<lparr>getHours = 7, getMinutes = 30\<rparr>,
         IsValid bob \<lparr>getHours = 7, getMinutes = 31\<rparr>] fresh) = 2"
  by code_simp

end
